theory Spec2Isabelle
  imports Main "HOL-Library.Word"
begin

unbundle bit_operations_syntax

section \<open>Data model\<close>

text \<open>
  A \<^verbatim>\<open>Uint8Array\<close> element and a byte on the wire are 8-bit words.  JavaScript numbers
  that hold integers are \<^typ>\<open>int\<close> (or \<^typ>\<open>nat\<close> where the code only ever sees
  non-negative positions and lengths).
\<close>

type_synonym byte = "8 word"

text \<open>
  Every \<^verbatim>\<open>throw new Error(...)\<close> of the two source files is a value of this type; the
  constructors carry the names the specification gives to the error kinds (section 7).
\<close>

datatype error =
    UnsupportedKeyType
  | UnsupportedSignatureType
  | UnknownVariant nat
  | InvalidThreshold
  | DuplicateIndex
  | IndexOutOfRange
  | TooManySignatures
  | InvalidBitmapLength
  | SignatureCountMismatch
  | TruncatedInput
  | Unimplemented

text \<open>
  The primitive key and signature classes (\<^verbatim>\<open>./ed25519\<close>, \<^verbatim>\<open>./secp256k1\<close>) are
  imported by the source.  A value of the union type \<^verbatim>\<open>PublicKeyInput\<close> of singleKey.ts is
  an instance of one of the two classes, holding its raw bytes; the constructor of the
  datatype is what \<^verbatim>\<open>instanceof\<close> tests.
\<close>

datatype PublicKeyInput = Ed25519PublicKey "byte list" | Secp256k1PublicKey "byte list"

datatype SignatureInput = Ed25519Signature "byte list" | Secp256k1Signature "byte list"

text \<open>
  Modelled from the spec: the enums \<^verbatim>\<open>AnyPublicKeyVariant\<close> and \<^verbatim>\<open>AnySignatureVariant\<close>
  are declared in \<^verbatim>\<open>../../types\<close>; the specification (section 3) gives their members as
  the SchemeVariant discriminants Ed25519 = 0 and Secp256k1 = 1.
\<close>

definition AnyPublicKeyVariant_Ed25519 :: nat where
  "AnyPublicKeyVariant_Ed25519 = 0"

definition AnyPublicKeyVariant_Secp256k1 :: nat where
  "AnyPublicKeyVariant_Secp256k1 = 1"

definition AnySignatureVariant_Ed25519 :: nat where
  "AnySignatureVariant_Ed25519 = 0"

definition AnySignatureVariant_Secp256k1 :: nat where
  "AnySignatureVariant_Secp256k1 = 1"

text \<open>
  The enum \<^verbatim>\<open>SigningSchemeInput\<close> is declared in \<^verbatim>\<open>../../types\<close> as well; neither the
  source files nor the specification give the numbers of its members, so they are a
  parameter of everything that reads them.
\<close>

record SigningSchemeInput =
  Ed25519 :: nat
  Secp256k1Ecdsa :: nat

text \<open>
  What the model needs of the primitive classes: the fixed length of the byte string of
  each scheme, and, kept apart, the primitive \<^verbatim>\<open>verifySignature\<close> methods, which
  take the raw key, the message and the raw signature and return a boolean or throw.
  The elliptic-curve arithmetic is outside the source files and the specification, so
  the two methods are a parameter of \<^verbatim>\<open>AnyPublicKey.verifySignature\<close> and no theorem
  fixes what they answer.
\<close>

record Primitives =
  Ed25519PublicKey_LENGTH :: nat
  Secp256k1PublicKey_LENGTH :: nat
  Ed25519Signature_LENGTH :: nat
  Secp256k1Signature_LENGTH :: nat

record PrimitiveVerification =
  Ed25519_verify :: "byte list \<Rightarrow> byte list \<Rightarrow> byte list \<Rightarrow> error + bool"
  Secp256k1_verify :: "byte list \<Rightarrow> byte list \<Rightarrow> byte list \<Rightarrow> error + bool"

record AnyPublicKey =
  publicKey :: PublicKeyInput
  variant :: nat

record AnySignature =
  signature :: SignatureInput
  variant :: nat

record MultiKey =
  publicKeys :: "AnyPublicKey list"
  signaturesRequired :: int

record MultiKeySignature =
  signatures :: "AnySignature list"
  bitmap :: "byte list"

text \<open>The union types \<^verbatim>\<open>PublicKeyInput\<close> and \<^verbatim>\<open>SignatureInput\<close> of the multi-key file.\<close>

datatype MultiKeyPublicKeyInput = PrimitiveKey PublicKeyInput | WrappedKey AnyPublicKey

datatype MultiKeySignatureInput = PrimitiveSignature SignatureInput | WrappedSignature AnySignature

text \<open>The \<^verbatim>\<open>bitmap\<close> argument of the MultiKeySignature constructor: \<^verbatim>\<open>Uint8Array | number[]\<close>.\<close>

datatype BitmapInput = Uint8Array "byte list" | NumberArray "nat list"

section \<open>The bit counting helper\<close>

text \<open>
  JavaScript's bitwise operators convert their operands with ToInt32 and return a 32-bit
  signed integer; \<^verbatim>\<open>-=\<close>, \<^verbatim>\<open>+\<close> and \<^verbatim>\<open>*\<close> are exact on integers of this size
  (below \<open>2 ^ 53\<close>).  On \<^typ>\<open>int\<close>, \<^const>\<open>drop_bit\<close> is the sign-propagating shift
  \<^verbatim>\<open>>>\<close>.
\<close>

definition toInt32 :: "int \<Rightarrow> int" where
  "toInt32 x = ((x + 2 ^ 31) mod 2 ^ 32) - 2 ^ 31"

definition bitCount :: "int \<Rightarrow> int" where
  "bitCount byte =
     (let n = byte;
          n = n - toInt32 (drop_bit 1 (toInt32 n) AND 0x55555555);
          n = toInt32 (toInt32 n AND 0x33333333) + toInt32 (drop_bit 2 (toInt32 n) AND 0x33333333)
      in drop_bit 24
           (toInt32 (toInt32 (toInt32 (n + drop_bit 4 (toInt32 n)) AND 0xf0f0f0f) * 0x1010101)))"

text \<open>\<^verbatim>\<open>bitmap.reduce((acc, byte) => acc + bitCount(byte), 0)\<close>\<close>

definition nSignatures :: "byte list \<Rightarrow> int" where
  "nSignatures bm = foldl (\<lambda>acc byte. acc + bitCount (uint byte)) 0 bm"

text \<open>
  The reference notion the claims compare with: the number of ones in the binary
  representation of a number, and of a sequence of bytes.
\<close>

fun popcount :: "nat \<Rightarrow> nat" where
  "popcount n = (if n = 0 then 0 else n mod 2 + popcount (n div 2))"

declare popcount.simps [simp del]

definition popcount_bytes :: "byte list \<Rightarrow> nat" where
  "popcount_bytes bm = sum_list (map (\<lambda>b. popcount (unat b)) bm)"

section \<open>Bitmaps\<close>

text \<open>
  One step of the body shared by the two \<^verbatim>\<open>createBitmap\<close> loops:
  \<^verbatim>\<open>byte = bitmap[byteOffset]; byte |= 128 >> bit % 8; bitmap[byteOffset] = byte\<close>.
  Reading a \<^verbatim>\<open>Uint8Array\<close> out of range gives \<^verbatim>\<open>undefined\<close>, which \<^verbatim>\<open>|=\<close> treats as 0,
  and writing out of range is ignored.  The position \<^verbatim>\<open>bit\<close> of the source is \<open>bitIdx\<close>.
\<close>

definition setBit :: "byte list \<Rightarrow> nat \<Rightarrow> byte list" where
  "setBit bm bitIdx =
     (let byteOffset = bitIdx div 8;
          byte = (if byteOffset < length bm then bm ! byteOffset else 0);
          byte = byte OR drop_bit (bitIdx mod 8) 128
      in if byteOffset < length bm then bm[byteOffset := byte] else bm)"

text \<open>
  \<^verbatim>\<open>MultiKey.createBitmap\<close>: the \<^verbatim>\<open>forEach\<close> loop with its state (the index \<open>idx\<close> of the
  callback, \<open>dupCheckSet\<close> and \<open>bitmap\<close>) passed along; \<open>n\<close> is \<^verbatim>\<open>this.publicKeys.length\<close>.
\<close>

fun MultiKey_createBitmap_loop ::
    "nat \<Rightarrow> nat list \<Rightarrow> nat \<Rightarrow> nat set \<Rightarrow> byte list \<Rightarrow> error + byte list" where
  "MultiKey_createBitmap_loop n [] idx dupCheckSet bm = Inr bm"
| "MultiKey_createBitmap_loop n (bitIdx # bits) idx dupCheckSet bm =
     (if idx + 1 > n then Inl IndexOutOfRange
      else if bitIdx \<in> dupCheckSet then Inl DuplicateIndex
      else MultiKey_createBitmap_loop n bits (idx + 1) (insert bitIdx dupCheckSet) (setBit bm bitIdx))"

definition MultiKey_createBitmap :: "MultiKey \<Rightarrow> nat list \<Rightarrow> error + byte list" where
  "MultiKey_createBitmap this bits =
     MultiKey_createBitmap_loop (length (publicKeys this)) bits 0 {} [0, 0, 0, 0]"

definition BITMAP_LEN :: nat where
  "BITMAP_LEN = 4"

definition MAX_SIGNATURES_SUPPORTED :: nat where
  "MAX_SIGNATURES_SUPPORTED = BITMAP_LEN * 8"

text \<open>\<^verbatim>\<open>MultiKeySignature.createBitmap\<close> (static).\<close>

fun MultiKeySignature_createBitmap_loop ::
    "nat list \<Rightarrow> nat set \<Rightarrow> byte list \<Rightarrow> error + byte list" where
  "MultiKeySignature_createBitmap_loop [] dupCheckSet bm = Inr bm"
| "MultiKeySignature_createBitmap_loop (bitIdx # bits) dupCheckSet bm =
     (if bitIdx \<ge> MAX_SIGNATURES_SUPPORTED then Inl IndexOutOfRange
      else if bitIdx \<in> dupCheckSet then Inl DuplicateIndex
      else MultiKeySignature_createBitmap_loop bits (insert bitIdx dupCheckSet) (setBit bm bitIdx))"

definition MultiKeySignature_createBitmap :: "nat list \<Rightarrow> error + byte list" where
  "MultiKeySignature_createBitmap bits =
     MultiKeySignature_createBitmap_loop bits {} [0, 0, 0, 0]"

section \<open>The polymorphic wrappers\<close>

text \<open>
  \<^verbatim>\<open>AnyPublicKey.fromPublicKey\<close> and \<^verbatim>\<open>AnySignature.fromSignature\<close>.  The \<^verbatim>\<open>else\<close>
  branch that throws is unreachable for a value of the union type.
\<close>

fun AnyPublicKey_fromPublicKey :: "PublicKeyInput \<Rightarrow> AnyPublicKey" where
  "AnyPublicKey_fromPublicKey (Ed25519PublicKey k) =
     \<lparr>publicKey = Ed25519PublicKey k, variant = AnyPublicKeyVariant_Ed25519\<rparr>"
| "AnyPublicKey_fromPublicKey (Secp256k1PublicKey k) =
     \<lparr>publicKey = Secp256k1PublicKey k, variant = AnyPublicKeyVariant_Secp256k1\<rparr>"

text \<open>The constructor of AnySignature is public and stores its two arguments.\<close>

definition AnySignature_new :: "SignatureInput \<Rightarrow> nat \<Rightarrow> AnySignature" where
  "AnySignature_new sig v = \<lparr>signature = sig, variant = v\<rparr>"

fun AnySignature_fromSignature :: "SignatureInput \<Rightarrow> AnySignature" where
  "AnySignature_fromSignature (Ed25519Signature s) =
     AnySignature_new (Ed25519Signature s) AnySignatureVariant_Ed25519"
| "AnySignature_fromSignature (Secp256k1Signature s) =
     AnySignature_new (Secp256k1Signature s) AnySignatureVariant_Secp256k1"

section \<open>MultiKeySignature construction\<close>

fun normalizeSignature :: "MultiKeySignatureInput \<Rightarrow> AnySignature" where
  "normalizeSignature (WrappedSignature s) = s"
| "normalizeSignature (PrimitiveSignature s) = AnySignature_fromSignature s"

definition MultiKeySignature_checkCount ::
    "AnySignature list \<Rightarrow> byte list \<Rightarrow> error + MultiKeySignature" where
  "MultiKeySignature_checkCount sigs bm =
     (if nSignatures bm \<noteq> int (length sigs) then Inl SignatureCountMismatch
      else Inr \<lparr>signatures = sigs, bitmap = bm\<rparr>)"

definition MultiKeySignature_new ::
    "MultiKeySignatureInput list \<Rightarrow> BitmapInput \<Rightarrow> error + MultiKeySignature" where
  "MultiKeySignature_new sigs bitmapInput =
     (if length sigs > MAX_SIGNATURES_SUPPORTED then Inl TooManySignatures
      else
        let sigs' = map normalizeSignature sigs in
        case bitmapInput of
          NumberArray bits \<Rightarrow>
            (case MultiKeySignature_createBitmap bits of
               Inl e \<Rightarrow> Inl e
             | Inr bm \<Rightarrow> MultiKeySignature_checkCount sigs' bm)
        | Uint8Array bm \<Rightarrow>
            if length bm \<noteq> BITMAP_LEN then Inl InvalidBitmapLength
            else MultiKeySignature_checkCount sigs' bm)"

section \<open>The canonical codec\<close>

text \<open>
  Modelled from the spec: the \<^verbatim>\<open>Serializer\<close> and \<^verbatim>\<open>Deserializer\<close> classes of
  \<^verbatim>\<open>../../bcs\<close> are not among the source files.  Section 6 of the specification gives the
  wire format: an unsigned variable-length integer (LEB128, smallest form), a single byte,
  a length-prefixed byte string, and a length-prefixed sequence.  A serializer method is
  the list of bytes it appends to the output; a deserializer method takes the rest of
  the input and returns the value read and the input left, or fails with
  \<^const>\<open>TruncatedInput\<close> when the input runs out.
\<close>

fun serializeU32AsUleb128 :: "nat \<Rightarrow> byte list" where
  "serializeU32AsUleb128 n =
     (if n < 128 then [of_nat n]
      else of_nat (n mod 128 + 128) # serializeU32AsUleb128 (n div 128))"

declare serializeU32AsUleb128.simps [simp del]

fun deserializeUleb128AsU32 :: "byte list \<Rightarrow> error + nat \<times> byte list" where
  "deserializeUleb128AsU32 [] = Inl TruncatedInput"
| "deserializeUleb128AsU32 (b # bs) =
     (if unat b < 128 then Inr (unat b, bs)
      else case deserializeUleb128AsU32 bs of
             Inl e \<Rightarrow> Inl e
           | Inr (v, rest) \<Rightarrow> Inr (unat b - 128 + 128 * v, rest))"

text \<open>
  The specification says nothing of a value that does not fit the single byte; every
  lemma that uses \<open>serializeU8\<close> assumes the value to lie between 0 and 255.
\<close>

definition serializeU8 :: "int \<Rightarrow> byte list" where
  "serializeU8 v = [word_of_int v]"

definition deserializeU8 :: "byte list \<Rightarrow> error + int \<times> byte list" where
  "deserializeU8 inp = (case inp of [] \<Rightarrow> Inl TruncatedInput | b # rest \<Rightarrow> Inr (uint b, rest))"

definition deserializeFixedBytes :: "nat \<Rightarrow> byte list \<Rightarrow> error + byte list \<times> byte list" where
  "deserializeFixedBytes len inp =
     (if length inp < len then Inl TruncatedInput else Inr (take len inp, drop len inp))"

definition serializeBytes :: "byte list \<Rightarrow> byte list" where
  "serializeBytes bs = serializeU32AsUleb128 (length bs) @ bs"

definition deserializeBytes :: "byte list \<Rightarrow> error + byte list \<times> byte list" where
  "deserializeBytes inp =
     (case deserializeUleb128AsU32 inp of
        Inl e \<Rightarrow> Inl e
      | Inr (len, rest) \<Rightarrow> deserializeFixedBytes len rest)"

text \<open>Reading \<open>n\<close> values one after the other, as the loops of the deserializers do.\<close>

fun deserializeMany ::
    "(byte list \<Rightarrow> error + 'a \<times> byte list) \<Rightarrow> nat \<Rightarrow> byte list \<Rightarrow> error + 'a list \<times> byte list" where
  "deserializeMany f 0 inp = Inr ([], inp)"
| "deserializeMany f (Suc n) inp =
     (case f inp of
        Inl e \<Rightarrow> Inl e
      | Inr (x, rest) \<Rightarrow>
          (case deserializeMany f n rest of
             Inl e \<Rightarrow> Inl e
           | Inr (xs, rest') \<Rightarrow> Inr (x # xs, rest')))"

definition serializeVector :: "('a \<Rightarrow> byte list) \<Rightarrow> 'a list \<Rightarrow> byte list" where
  "serializeVector ser xs = serializeU32AsUleb128 (length xs) @ concat (map ser xs)"

definition deserializeVector ::
    "(byte list \<Rightarrow> error + 'a \<times> byte list) \<Rightarrow> byte list \<Rightarrow> error + 'a list \<times> byte list" where
  "deserializeVector f inp =
     (case deserializeUleb128AsU32 inp of
        Inl e \<Rightarrow> Inl e
      | Inr (len, rest) \<Rightarrow> deserializeMany f len rest)"

text \<open>
  Modelled from the spec: the \<^verbatim>\<open>serialize\<close> and \<^verbatim>\<open>deserialize\<close> methods of the primitive
  classes are not among the source files.  Section 6: a primitive key or signature is a
  fixed-length byte string, the length determined by the scheme.
\<close>

fun PublicKeyInput_serialize :: "PublicKeyInput \<Rightarrow> byte list" where
  "PublicKeyInput_serialize (Ed25519PublicKey k) = k"
| "PublicKeyInput_serialize (Secp256k1PublicKey k) = k"

fun SignatureInput_serialize :: "SignatureInput \<Rightarrow> byte list" where
  "SignatureInput_serialize (Ed25519Signature s) = s"
| "SignatureInput_serialize (Secp256k1Signature s) = s"

definition Ed25519PublicKey_deserialize ::
    "Primitives \<Rightarrow> byte list \<Rightarrow> error + PublicKeyInput \<times> byte list" where
  "Ed25519PublicKey_deserialize P inp =
     (case deserializeFixedBytes (Ed25519PublicKey_LENGTH P) inp of
        Inl e \<Rightarrow> Inl e | Inr (k, rest) \<Rightarrow> Inr (Ed25519PublicKey k, rest))"

definition Secp256k1PublicKey_deserialize ::
    "Primitives \<Rightarrow> byte list \<Rightarrow> error + PublicKeyInput \<times> byte list" where
  "Secp256k1PublicKey_deserialize P inp =
     (case deserializeFixedBytes (Secp256k1PublicKey_LENGTH P) inp of
        Inl e \<Rightarrow> Inl e | Inr (k, rest) \<Rightarrow> Inr (Secp256k1PublicKey k, rest))"

definition Ed25519Signature_deserialize ::
    "Primitives \<Rightarrow> byte list \<Rightarrow> error + SignatureInput \<times> byte list" where
  "Ed25519Signature_deserialize P inp =
     (case deserializeFixedBytes (Ed25519Signature_LENGTH P) inp of
        Inl e \<Rightarrow> Inl e | Inr (s, rest) \<Rightarrow> Inr (Ed25519Signature s, rest))"

definition Secp256k1Signature_deserialize ::
    "Primitives \<Rightarrow> byte list \<Rightarrow> error + SignatureInput \<times> byte list" where
  "Secp256k1Signature_deserialize P inp =
     (case deserializeFixedBytes (Secp256k1Signature_LENGTH P) inp of
        Inl e \<Rightarrow> Inl e | Inr (s, rest) \<Rightarrow> Inr (Secp256k1Signature s, rest))"

section \<open>AnyPublicKey and AnySignature: verification and serialization\<close>

text \<open>\<^verbatim>\<open>AnyPublicKey.verifySignature\<close>: two \<^verbatim>\<open>instanceof\<close> guards, then \<^verbatim>\<open>return false\<close>.\<close>

fun verifySignature_dispatch ::
    "PrimitiveVerification \<Rightarrow> PublicKeyInput \<Rightarrow> byte list \<Rightarrow> SignatureInput \<Rightarrow> error + bool" where
  "verifySignature_dispatch V (Ed25519PublicKey k) message (Ed25519Signature s) =
     Ed25519_verify V k message s"
| "verifySignature_dispatch V (Secp256k1PublicKey k) message (Secp256k1Signature s) =
     Secp256k1_verify V k message s"
| "verifySignature_dispatch V _ message _ = Inr False"

definition AnyPublicKey_verifySignature ::
    "PrimitiveVerification \<Rightarrow> AnyPublicKey \<Rightarrow> byte list \<Rightarrow> AnySignature \<Rightarrow> error + bool" where
  "AnyPublicKey_verifySignature V this message sig =
     verifySignature_dispatch V (publicKey this) message (signature sig)"

definition AnyPublicKey_serialize :: "AnyPublicKey \<Rightarrow> byte list" where
  "AnyPublicKey_serialize this =
     serializeU32AsUleb128 (AnyPublicKey.variant this) @ PublicKeyInput_serialize (publicKey this)"

definition AnyPublicKey_deserialize ::
    "Primitives \<Rightarrow> byte list \<Rightarrow> error + AnyPublicKey \<times> byte list" where
  "AnyPublicKey_deserialize P inp =
     (case deserializeUleb128AsU32 inp of
        Inl e \<Rightarrow> Inl e
      | Inr (variantIndex, rest) \<Rightarrow>
          (case (if variantIndex = AnyPublicKeyVariant_Ed25519
                   then Ed25519PublicKey_deserialize P rest
                 else if variantIndex = AnyPublicKeyVariant_Secp256k1
                   then Secp256k1PublicKey_deserialize P rest
                 else Inl (UnknownVariant variantIndex)) of
             Inl e \<Rightarrow> Inl e
           | Inr (pk, rest') \<Rightarrow> Inr (\<lparr>publicKey = pk, variant = variantIndex\<rparr>, rest')))"

text \<open>
  \<^verbatim>\<open>AnySignature.serialize\<close> tests the class of the wrapped signature and writes a member
  of \<^verbatim>\<open>SigningSchemeInput\<close>; it does not read \<^verbatim>\<open>this.variant\<close>.
\<close>

definition AnySignature_serialize :: "SigningSchemeInput \<Rightarrow> AnySignature \<Rightarrow> byte list" where
  "AnySignature_serialize T this =
     (case signature this of
        Ed25519Signature s \<Rightarrow>
          serializeU32AsUleb128 (Ed25519 T) @ SignatureInput_serialize (Ed25519Signature s)
      | Secp256k1Signature s \<Rightarrow>
          serializeU32AsUleb128 (Secp256k1Ecdsa T) @ SignatureInput_serialize (Secp256k1Signature s))"

definition AnySignature_deserialize ::
    "Primitives \<Rightarrow> byte list \<Rightarrow> error + AnySignature \<times> byte list" where
  "AnySignature_deserialize P inp =
     (case deserializeUleb128AsU32 inp of
        Inl e \<Rightarrow> Inl e
      | Inr (variantIndex, rest) \<Rightarrow>
          (case (if variantIndex = AnySignatureVariant_Ed25519
                   then Ed25519Signature_deserialize P rest
                 else if variantIndex = AnySignatureVariant_Secp256k1
                   then Secp256k1Signature_deserialize P rest
                 else Inl (UnknownVariant variantIndex)) of
             Inl e \<Rightarrow> Inl e
           | Inr (sig, rest') \<Rightarrow> Inr (AnySignature_new sig variantIndex, rest')))"

section \<open>MultiKey and MultiKeySignature: construction and serialization\<close>

fun normalizeKey :: "MultiKeyPublicKeyInput \<Rightarrow> AnyPublicKey" where
  "normalizeKey (WrappedKey k) = k"
| "normalizeKey (PrimitiveKey k) = AnyPublicKey_fromPublicKey k"

definition MultiKey_new :: "MultiKeyPublicKeyInput list \<Rightarrow> int \<Rightarrow> error + MultiKey" where
  "MultiKey_new keys required =
     (if required < 1 then Inl InvalidThreshold
      else if int (length keys) < required then Inl InvalidThreshold
      else Inr \<lparr>publicKeys = map normalizeKey keys, signaturesRequired = required\<rparr>)"

definition MultiKey_serialize :: "MultiKey \<Rightarrow> byte list" where
  "MultiKey_serialize this =
     serializeVector AnyPublicKey_serialize (publicKeys this) @ serializeU8 (signaturesRequired this)"

definition MultiKey_deserialize :: "Primitives \<Rightarrow> byte list \<Rightarrow> error + MultiKey \<times> byte list" where
  "MultiKey_deserialize P inp =
     (case deserializeVector (AnyPublicKey_deserialize P) inp of
        Inl e \<Rightarrow> Inl e
      | Inr (keys, rest) \<Rightarrow>
          (case deserializeU8 rest of
             Inl e \<Rightarrow> Inl e
           | Inr (required, rest') \<Rightarrow>
               (case MultiKey_new (map WrappedKey keys) required of
                  Inl e \<Rightarrow> Inl e
                | Inr k \<Rightarrow> Inr (k, rest'))))"

definition MultiKeySignature_serialize ::
    "SigningSchemeInput \<Rightarrow> MultiKeySignature \<Rightarrow> byte list" where
  "MultiKeySignature_serialize T this =
     serializeBytes (bitmap this) @ concat (map (AnySignature_serialize T) (signatures this))"

text \<open>
  \<^verbatim>\<open>MultiKeySignature.deserialize\<close>: the \<^verbatim>\<open>for\<close> loop runs \<open>nSignatures\<close> times, then the
  constructor is called with the \<^verbatim>\<open>Uint8Array\<close> read.
\<close>

definition MultiKeySignature_deserialize ::
    "Primitives \<Rightarrow> byte list \<Rightarrow> error + MultiKeySignature \<times> byte list" where
  "MultiKeySignature_deserialize P inp =
     (case deserializeBytes inp of
        Inl e \<Rightarrow> Inl e
      | Inr (bm, rest) \<Rightarrow>
          (case deserializeMany (AnySignature_deserialize P) (nat (nSignatures bm)) rest of
             Inl e \<Rightarrow> Inl e
           | Inr (sigs, rest') \<Rightarrow>
               (case MultiKeySignature_new (map WrappedSignature sigs) (Uint8Array bm) of
                  Inl e \<Rightarrow> Inl e
                | Inr m \<Rightarrow> Inr (m, rest'))))"

section \<open>Predicates of the claims\<close>

text \<open>
  The pairing invariant of the specification: the stored variant is the discriminant of
  the class of the wrapped value.
\<close>

fun AnyPublicKey_paired :: "AnyPublicKey \<Rightarrow> bool" where
  "AnyPublicKey_paired k =
     (case publicKey k of
        Ed25519PublicKey _ \<Rightarrow> AnyPublicKey.variant k = AnyPublicKeyVariant_Ed25519
      | Secp256k1PublicKey _ \<Rightarrow> AnyPublicKey.variant k = AnyPublicKeyVariant_Secp256k1)"

fun AnySignature_paired :: "AnySignature \<Rightarrow> bool" where
  "AnySignature_paired s =
     (case signature s of
        Ed25519Signature _ \<Rightarrow> AnySignature.variant s = AnySignatureVariant_Ed25519
      | Secp256k1Signature _ \<Rightarrow> AnySignature.variant s = AnySignatureVariant_Secp256k1)"

text \<open>
  A valid value: the pairing invariant holds and the raw bytes have the length of the
  scheme; for a MultiKey and a MultiKeySignature, the invariants of section 3 of the
  specification, which are what the constructors check.
\<close>

fun PublicKeyInput_valid :: "Primitives \<Rightarrow> PublicKeyInput \<Rightarrow> bool" where
  "PublicKeyInput_valid P (Ed25519PublicKey k) = (length k = Ed25519PublicKey_LENGTH P)"
| "PublicKeyInput_valid P (Secp256k1PublicKey k) = (length k = Secp256k1PublicKey_LENGTH P)"

fun SignatureInput_valid :: "Primitives \<Rightarrow> SignatureInput \<Rightarrow> bool" where
  "SignatureInput_valid P (Ed25519Signature s) = (length s = Ed25519Signature_LENGTH P)"
| "SignatureInput_valid P (Secp256k1Signature s) = (length s = Secp256k1Signature_LENGTH P)"

definition AnyPublicKey_valid :: "Primitives \<Rightarrow> AnyPublicKey \<Rightarrow> bool" where
  "AnyPublicKey_valid P k = (AnyPublicKey_paired k \<and> PublicKeyInput_valid P (publicKey k))"

definition AnySignature_valid :: "Primitives \<Rightarrow> AnySignature \<Rightarrow> bool" where
  "AnySignature_valid P s = (AnySignature_paired s \<and> SignatureInput_valid P (signature s))"

definition MultiKey_valid :: "Primitives \<Rightarrow> MultiKey \<Rightarrow> bool" where
  "MultiKey_valid P k =
     (1 \<le> signaturesRequired k \<and> signaturesRequired k \<le> int (length (publicKeys k))
      \<and> list_all (AnyPublicKey_valid P) (publicKeys k))"

definition MultiKeySignature_valid :: "Primitives \<Rightarrow> MultiKeySignature \<Rightarrow> bool" where
  "MultiKeySignature_valid P m =
     (length (bitmap m) = BITMAP_LEN \<and> popcount_bytes (bitmap m) = length (signatures m)
      \<and> list_all (AnySignature_valid P) (signatures m))"

text \<open>The wrapped key and the wrapped signature are instances of classes of the same scheme.\<close>

fun sameScheme :: "PublicKeyInput \<Rightarrow> SignatureInput \<Rightarrow> bool" where
  "sameScheme (Ed25519PublicKey _) (Ed25519Signature _) = True"
| "sameScheme (Secp256k1PublicKey _) (Secp256k1Signature _) = True"
| "sameScheme _ _ = False"

text \<open>
  Concrete collaborators for the examples: the byte lengths of the two schemes, and a
  numbering of \<^verbatim>\<open>SigningSchemeInput\<close> in which the member for Secp256k1 is not the
  discriminant 1 of \<^verbatim>\<open>AnySignatureVariant\<close>.
\<close>

definition examplePrimitives :: Primitives where
  "examplePrimitives =
     \<lparr>Ed25519PublicKey_LENGTH = 32, Secp256k1PublicKey_LENGTH = 65,
      Ed25519Signature_LENGTH = 64, Secp256k1Signature_LENGTH = 64\<rparr>"

definition exampleSigningSchemeInput :: SigningSchemeInput where
  "exampleSigningSchemeInput = \<lparr>Ed25519 = 0, Secp256k1Ecdsa = 2\<rparr>"

section \<open>Auxiliary definitions for the proofs\<close>

text \<open>
  The three steps of \<^const>\<open>bitCount\<close> on a value below 256, where no ToInt32 conversion
  changes anything and only the low eight bits of the masks matter: sums of bit pairs,
  sums of nibbles, and the sum for the byte.
\<close>

definition pairSums :: "int \<Rightarrow> int" where
  "pairSums n = n - (drop_bit 1 n AND 85)"

definition nibbleSums :: "int \<Rightarrow> int" where
  "nibbleSums n = (n AND 51) + (drop_bit 2 n AND 51)"

definition byteSum :: "int \<Rightarrow> int" where
  "byteSum n = (n + drop_bit 4 n) AND 15"

section \<open>The bit counting helper is the population count\<close>

lemma toInt32_id: "- 2147483648 \<le> x \<Longrightarrow> x < 2147483648 \<Longrightarrow> toInt32 x = x"
  by (simp add: toInt32_def)

lemma and_take_bit:
  fixes x m :: int
  assumes "0 \<le> x" "x < 2 ^ k"
  shows "x AND m = x AND take_bit k m"
proof -
  have x: "take_bit k x = x" using assms by (simp add: take_bit_int_eq_self)
  have "take_bit k x AND m = take_bit k x AND take_bit k m"
    by (auto simp add: bit_eq_iff bit_and_iff bit_take_bit_iff)
  then show ?thesis by (simp add: x)
qed

lemma and_le_left:
  fixes x m :: int
  shows "0 \<le> x \<Longrightarrow> x AND m \<le> x"
  by (simp add: AND_upper1)

lemma and_le_mask:
  fixes x m :: int
  shows "0 \<le> m \<Longrightarrow> x AND m \<le> m"
  by (simp add: AND_upper2)

lemma drop_bit_le:
  fixes x :: int
  assumes "0 \<le> x"
  shows "drop_bit k x \<le> x"
proof -
  have "x div 2 ^ k \<le> x div 1"
    by (rule zdiv_mono2) (use assms in simp_all)
  then show ?thesis by (simp add: drop_bit_eq_div)
qed

lemma spread_shift:
  fixes v :: int
  assumes "0 \<le> v" "v \<le> 15"
  shows "drop_bit 24 (v * 16843009) = v"
proof -
  have split: "v * 16843009 = v * 65793 + v * 16777216" by simp
  have small: "0 \<le> v * 65793" "v * 65793 < 16777216" using assms by simp_all
  have "(v * 65793 + v * 16777216) div 16777216 = v * 65793 div 16777216 + v"
    by simp
  moreover have "v * 65793 div 16777216 = 0"
    using small by (rule div_pos_pos_trivial)
  ultimately have "(v * 16843009) div 16777216 = v" by (simp only: split)
  then show ?thesis by (simp add: drop_bit_eq_div)
qed

lemma pairSums_eq:
  assumes "0 \<le> n" "n < 256"
  shows "n - toInt32 (drop_bit 1 (toInt32 n) AND 0x55555555) = pairSums n"
    and "0 \<le> pairSums n" and "pairSums n < 256"
proof -
  define d where "d = drop_bit 1 n"
  have d: "0 \<le> d" "d \<le> n" using assms drop_bit_le [of n 1] by (simp_all add: d_def)
  then have d8: "d < 2 ^ 8" using assms by simp
  have m: "d AND 0x55555555 = d AND 85"
    using and_take_bit [OF d(1) d8, of "0x55555555"] by simp
  have b: "0 \<le> d AND 85" "d AND 85 \<le> d"
    using d(1) and_le_left [of d 85] by simp_all
  have t: "toInt32 (d AND 85) = d AND 85"
    by (rule toInt32_id) (use b d assms in linarith)+
  have n32: "toInt32 n = n" by (rule toInt32_id) (use assms in linarith)+
  show "n - toInt32 (drop_bit 1 (toInt32 n) AND 0x55555555) = pairSums n"
    unfolding n32 d_def [symmetric] m t pairSums_def by (rule refl)
  show "0 \<le> pairSums n" "pairSums n < 256"
    unfolding pairSums_def d_def [symmetric] using b d assms by linarith+
qed

lemma nibbleSums_eq:
  assumes "0 \<le> n" "n < 256"
  shows "toInt32 (toInt32 n AND 0x33333333) + toInt32 (drop_bit 2 (toInt32 n) AND 0x33333333)
         = nibbleSums n"
    and "0 \<le> nibbleSums n" and "nibbleSums n \<le> 102"
proof -
  define d where "d = drop_bit 2 n"
  have d: "0 \<le> d" "d \<le> n" using assms drop_bit_le [of n 2] by (simp_all add: d_def)
  then have d8: "d < 2 ^ 8" using assms by simp
  have n8: "n < 2 ^ 8" using assms by simp
  have m: "d AND 0x33333333 = d AND 51" "n AND 0x33333333 = n AND 51"
    using and_take_bit [OF d(1) d8, of "0x33333333"] and_take_bit [OF assms(1) n8, of "0x33333333"]
    by simp_all
  have b: "0 \<le> d AND 51" "d AND 51 \<le> 51" "0 \<le> n AND 51" "n AND 51 \<le> 51"
    using d(1) assms(1) and_le_mask [of 51 d] and_le_mask [of 51 n] by simp_all
  have t: "toInt32 (d AND 51) = d AND 51" "toInt32 (n AND 51) = n AND 51"
    by (rule toInt32_id; use b in linarith)+
  have n32: "toInt32 n = n" by (rule toInt32_id) (use assms in linarith)+
  show "toInt32 (toInt32 n AND 0x33333333) + toInt32 (drop_bit 2 (toInt32 n) AND 0x33333333)
         = nibbleSums n"
    unfolding n32 d_def [symmetric] m t nibbleSums_def by (rule refl)
  show "0 \<le> nibbleSums n" "nibbleSums n \<le> 102"
    unfolding nibbleSums_def d_def [symmetric] using b by linarith+
qed

lemma byteSum_eq:
  assumes "0 \<le> n" "n \<le> 102"
  shows "toInt32 (toInt32 (n + drop_bit 4 (toInt32 n)) AND 0xf0f0f0f) = byteSum n"
    and "0 \<le> byteSum n" and "byteSum n \<le> 15"
proof -
  define s where "s = n + drop_bit 4 n"
  have d: "0 \<le> drop_bit 4 n" "drop_bit 4 n \<le> n" using assms drop_bit_le [of n 4] by simp_all
  have s: "0 \<le> s" "s < 2 ^ 8" using d assms by (simp_all add: s_def)
  have m: "s AND 0xf0f0f0f = s AND 15"
    using and_take_bit [OF s, of "0xf0f0f0f"] by simp
  have b: "0 \<le> s AND 15" "s AND 15 \<le> 15"
    using s(1) and_le_mask [of 15 s] by simp_all
  have t: "toInt32 (s AND 15) = s AND 15" by (rule toInt32_id) (use b in linarith)+
  have n32: "toInt32 n = n" by (rule toInt32_id) (use assms in linarith)+
  have s32: "toInt32 s = s" by (rule toInt32_id) (use s in simp_all)
  have "toInt32 (toInt32 (n + drop_bit 4 (toInt32 n)) AND 0xf0f0f0f) = s AND 15"
    unfolding n32 s_def [symmetric] s32 m t by (rule refl)
  then show "toInt32 (toInt32 (n + drop_bit 4 (toInt32 n)) AND 0xf0f0f0f) = byteSum n"
    by (simp only: byteSum_def s_def)
  show "0 \<le> byteSum n" "byteSum n \<le> 15"
    unfolding byteSum_def s_def [symmetric] using b by linarith+
qed

lemma bitCount_byte_steps:
  assumes "0 \<le> n" "n < 256"
  shows "bitCount n = byteSum (nibbleSums (pairSums n))"
proof -
  note a = pairSums_eq [OF assms]
  note b = nibbleSums_eq [OF a(2,3)]
  note c = byteSum_eq [OF b(2,3)]
  have p: "toInt32 (byteSum (nibbleSums (pairSums n)) * 0x1010101)
             = byteSum (nibbleSums (pairSums n)) * 0x1010101"
    by (rule toInt32_id) (use c(2,3) in linarith)+
  show ?thesis
    unfolding bitCount_def Let_def a(1) b(1) c(1) p
    using spread_shift [OF c(2,3)] by simp
qed

lemma all_below_numeral:
  "(\<forall>n < numeral k. P (n::nat)) \<longleftrightarrow> P (pred_numeral k) \<and> (\<forall>n < pred_numeral k. P n)"
  by (metis less_Suc_eq numeral_eq_Suc)

lemma all_below_one: "(\<forall>n < (1::nat). P n) \<longleftrightarrow> P 0"
  by simp

lemma byte_steps_table: "\<forall>n<256. byteSum (nibbleSums (pairSums (int n))) = int (popcount n)"
  apply (simp only: all_below_numeral all_below_one pred_numeral_simps Num.BitM.simps numeral_One)
  apply (simp add: pairSums_def nibbleSums_def byteSum_def popcount.simps)
  done

lemma bitCount_nat: "n < 256 \<Longrightarrow> bitCount (int n) = int (popcount n)"
  using bitCount_byte_steps [of "int n"] byte_steps_table by simp

lemma bitCount_byte: "bitCount (uint (b :: byte)) = int (popcount (unat b))"
proof -
  have "unat b < 2 ^ 8" using unsigned_less [of b, where ?'a = nat] by simp
  then have "unat b < 256" by simp
  then have "bitCount (int (unat b)) = int (popcount (unat b))" by (rule bitCount_nat)
  then show ?thesis by simp
qed

lemma foldl_bitCount:
  "foldl (\<lambda>acc byte. acc + bitCount (uint (byte :: byte))) a bm = a + int (popcount_bytes bm)"
  by (induction bm arbitrary: a) (simp_all add: popcount_bytes_def bitCount_byte)

lemma nSignatures_popcount: "nSignatures bm = int (popcount_bytes bm)"
  by (simp add: nSignatures_def foldl_bitCount)

text \<open>
  C9: for every integer \<open>b\<close> with \<open>0 \<le> b \<le> 255\<close>, \<open>bitCount b\<close> is the number of set bits
  in the binary representation of \<open>b\<close>; hence the signature count that the constructor
  and the deserializer of MultiKeySignature obtain by summing \<open>bitCount\<close> over the bytes
  of the bitmap is the population count of the bitmap.
\<close>

theorem bitCount_is_popcount:
  "(0 \<le> b \<and> b \<le> 255 \<longrightarrow> bitCount b = int (popcount (nat b)))
   \<and> nSignatures bm = int (popcount_bytes bm)"
proof (intro conjI impI)
  assume b: "0 \<le> b \<and> b \<le> 255"
  then have "nat b < 256" by linarith
  then have "bitCount (int (nat b)) = int (popcount (nat b))" by (rule bitCount_nat)
  with b show "bitCount b = int (popcount (nat b))" by simp
next
  show "nSignatures bm = int (popcount_bytes bm)" by (rule nSignatures_popcount)
qed

theorem bitCount_is_popcount_witness:
  "(0::int) \<le> 160 \<and> (160::int) \<le> 255 \<and> bitCount 160 = 2
   \<and> nSignatures [160, 0, 0, 0] = 2"
proof -
  have p: "popcount 160 = 2" "popcount 0 = 0" by (simp_all add: popcount.simps)
  show ?thesis
    using bitCount_is_popcount [of 160 "[160, 0, 0, 0]"] by (simp add: popcount_bytes_def p)
qed

section \<open>Bitmaps and the construction of MultiKeySignature\<close>

lemma setBit_length [simp]: "length (setBit bm i) = length bm"
  by (simp add: setBit_def Let_def)

lemma firstBit_shift:
  "drop_bit (i mod 8) (128 :: byte) = push_bit (7 - i mod 8) 1"
proof -
  have "i mod 8 < 8" by simp
  then consider "i mod 8 = 0" | "i mod 8 = 1" | "i mod 8 = 2" | "i mod 8 = 3"
    | "i mod 8 = 4" | "i mod 8 = 5" | "i mod 8 = 6" | "i mod 8 = 7"
    by linarith
  then show ?thesis
    by cases simp_all
qed

lemma setBit_in_range:
  "i div 8 < length bm \<Longrightarrow>
     setBit bm i = bm[i div 8 := bm ! (i div 8) OR push_bit (7 - i mod 8) 1]"
  by (simp add: setBit_def Let_def firstBit_shift)

lemma setBit_out_of_range: "length bm \<le> i div 8 \<Longrightarrow> setBit bm i = bm"
  by (simp add: setBit_def Let_def)

lemma MultiKeySignature_createBitmap_loop_length:
  "MultiKeySignature_createBitmap_loop bits seen bm = Inr bm' \<Longrightarrow> length bm' = length bm"
  by (induction bits arbitrary: seen bm) (auto split: if_splits)

lemma MultiKeySignature_createBitmap_length:
  "MultiKeySignature_createBitmap bits = Inr bm \<Longrightarrow> length bm = 4"
  using MultiKeySignature_createBitmap_loop_length [of bits "{}" "[0, 0, 0, 0]" bm]
  by (simp add: MultiKeySignature_createBitmap_def)

lemma checkCount_mismatch:
  "MultiKeySignature_checkCount sigs bm = Inl e \<longleftrightarrow>
     e = SignatureCountMismatch \<and> popcount_bytes bm \<noteq> length sigs"
  by (auto simp: MultiKeySignature_checkCount_def nSignatures_popcount)

lemma checkCount_ok:
  "MultiKeySignature_checkCount sigs bm = Inr m \<longleftrightarrow>
     popcount_bytes bm = length sigs \<and> m = \<lparr>signatures = sigs, bitmap = bm\<rparr>"
  by (auto simp: MultiKeySignature_checkCount_def nSignatures_popcount)

lemma MultiKeySignature_new_ok:
  assumes "MultiKeySignature_new sigs bitmapInput = Inr m"
  shows "popcount_bytes (bitmap m) = length (signatures m)"
    and "signatures m = map normalizeSignature sigs"
    and "length (bitmap m) = BITMAP_LEN"
    and "length sigs \<le> MAX_SIGNATURES_SUPPORTED"
  using assms
  by (auto simp: MultiKeySignature_new_def Let_def checkCount_ok BITMAP_LEN_def
           dest: MultiKeySignature_createBitmap_length
           split: if_splits BitmapInput.splits sum.splits)

lemma MultiKeySignature_new_raw:
  "MultiKeySignature_new sigs (Uint8Array bm) =
     (if length sigs > 32 then Inl TooManySignatures
      else if length bm \<noteq> 4 then Inl InvalidBitmapLength
      else if popcount_bytes bm \<noteq> length sigs then Inl SignatureCountMismatch
      else Inr \<lparr>signatures = map normalizeSignature sigs, bitmap = bm\<rparr>)"
  by (simp add: MultiKeySignature_new_def Let_def MultiKeySignature_checkCount_def
        nSignatures_popcount MAX_SIGNATURES_SUPPORTED_def BITMAP_LEN_def)

lemma MultiKeySignature_new_bits:
  "MultiKeySignature_new sigs (NumberArray bits) =
     (if length sigs > 32 then Inl TooManySignatures
      else case MultiKeySignature_createBitmap bits of
             Inl e \<Rightarrow> Inl e
           | Inr bm \<Rightarrow>
               if popcount_bytes bm \<noteq> length sigs then Inl SignatureCountMismatch
               else Inr \<lparr>signatures = map normalizeSignature sigs, bitmap = bm\<rparr>)"
  by (simp add: MultiKeySignature_new_def Let_def MultiKeySignature_checkCount_def
        nSignatures_popcount MAX_SIGNATURES_SUPPORTED_def BITMAP_LEN_def split: sum.splits)

lemma popcount_bytes_zero: "popcount_bytes [0, 0, 0, 0] = 0"
  by (simp add: popcount_bytes_def popcount.simps)

lemma createBitmap_empty: "MultiKeySignature_createBitmap [] = Inr [0, 0, 0, 0]"
  by (simp add: MultiKeySignature_createBitmap_def)

text \<open>
  C2: \<^verbatim>\<open>MultiKey.createBitmap\<close> tests \<open>idx + 1 > publicKeys.length\<close>, where \<open>idx\<close> is
  the index of the callback in the list of positions, not the position itself.  For a
  MultiKey of three keys the single position 3 is accepted and sets bit 3, and position
  32, which lies outside the four bytes, is accepted and sets nothing.
\<close>

theorem MultiKey_createBitmap_ignores_position:
  "MultiKey_createBitmap \<lparr>publicKeys = [k1, k2, k3], signaturesRequired = 2\<rparr> [3]
     = Inr [16, 0, 0, 0]
   \<and> MultiKey_createBitmap \<lparr>publicKeys = [k1, k2, k3], signaturesRequired = 2\<rparr> [32]
     = Inr [0, 0, 0, 0]"
  by (simp add: MultiKey_createBitmap_def setBit_def)

text \<open>
  C10: an empty list of signatures with the all-zero bitmap, or with the empty list of
  positions, is accepted.  With a raw bitmap the constructor succeeds exactly when there
  are at most 32 signatures, the bitmap has four bytes and its population count is the
  number of signatures; with a list of positions, exactly when there are at most 32
  signatures, the bitmap can be built and its population count is the number of
  signatures.  No minimum is enforced.
\<close>

theorem MultiKeySignature_empty_ok:
  "MultiKeySignature_new [] (Uint8Array [0, 0, 0, 0]) = Inr \<lparr>signatures = [], bitmap = [0, 0, 0, 0]\<rparr>
   \<and> MultiKeySignature_new [] (NumberArray []) = Inr \<lparr>signatures = [], bitmap = [0, 0, 0, 0]\<rparr>
   \<and> ((\<exists>m. MultiKeySignature_new sigs (Uint8Array bm) = Inr m) \<longleftrightarrow>
        length sigs \<le> 32 \<and> length bm = 4 \<and> popcount_bytes bm = length sigs)
   \<and> ((\<exists>m. MultiKeySignature_new sigs (NumberArray bits) = Inr m) \<longleftrightarrow>
        length sigs \<le> 32 \<and>
        (\<exists>bm. MultiKeySignature_createBitmap bits = Inr bm \<and> popcount_bytes bm = length sigs))"
  by (auto simp: MultiKeySignature_new_raw MultiKeySignature_new_bits popcount_bytes_zero
        createBitmap_empty split: sum.splits)

text \<open>
  C6, as stated, fails: with 33 signatures and the all-zero bitmap the population count
  (0) differs from the number of signatures, but the constructor stops at its first
  check and the error is \<^const>\<open>TooManySignatures\<close>.
\<close>

theorem count_mismatch_counterexample:
  "popcount_bytes [0, 0, 0, 0] \<noteq> length (replicate 33 (PrimitiveSignature (Ed25519Signature [])))
   \<and> MultiKeySignature_new (replicate 33 (PrimitiveSignature (Ed25519Signature [])))
        (Uint8Array [0, 0, 0, 0]) = Inl TooManySignatures"
  by (simp add: MultiKeySignature_new_raw popcount_bytes_zero)

text \<open>
  C6, amended: for every list of at most 32 signatures and every bitmap, given as four
  raw bytes or built without error from a list of positions, the constructor fails with
  \<^const>\<open>SignatureCountMismatch\<close> exactly when the population count of the bitmap differs
  from the number of signatures; and every MultiKeySignature that any call of the
  constructor returns has as many signatures as its bitmap has bits set.
\<close>

theorem count_mismatch_iff:
  assumes "length sigs \<le> 32"
    and "(bitmapInput = Uint8Array bm \<and> length bm = 4)
         \<or> (bitmapInput = NumberArray bits \<and> MultiKeySignature_createBitmap bits = Inr bm)"
  shows "(MultiKeySignature_new sigs bitmapInput = Inl SignatureCountMismatch
            \<longleftrightarrow> popcount_bytes bm \<noteq> length sigs)
         \<and> (\<forall>sigs' input' m. MultiKeySignature_new sigs' input' = Inr m
               \<longrightarrow> popcount_bytes (bitmap m) = length (signatures m))"
  using assms MultiKeySignature_new_ok(1)
  by (auto simp: MultiKeySignature_new_raw MultiKeySignature_new_bits)

lemma example_bitmap: "MultiKeySignature_createBitmap [0, 1, 2] = Inr [224, 0, 0, 0]"
  by (simp add: MultiKeySignature_createBitmap_def setBit_def MAX_SIGNATURES_SUPPORTED_def
        BITMAP_LEN_def)

lemma example_popcount: "popcount_bytes [224, 0, 0, 0] = 3"
  by (simp add: popcount_bytes_def popcount.simps)

theorem count_mismatch_iff_witness:
  "length [PrimitiveSignature (Ed25519Signature []), PrimitiveSignature (Secp256k1Signature [])] \<le> 32
   \<and> MultiKeySignature_createBitmap [0, 1, 2] = Inr [224, 0, 0, 0]
   \<and> popcount_bytes [224, 0, 0, 0] \<noteq>
       length [PrimitiveSignature (Ed25519Signature []), PrimitiveSignature (Secp256k1Signature [])]
   \<and> MultiKeySignature_new
         [PrimitiveSignature (Ed25519Signature []), PrimitiveSignature (Secp256k1Signature [])]
         (NumberArray [0, 1, 2]) = Inl SignatureCountMismatch"
proof -
  let ?sigs = "[PrimitiveSignature (Ed25519Signature []), PrimitiveSignature (Secp256k1Signature [])]"
  have a: "length ?sigs \<le> 32" by simp
  have b: "(NumberArray [0, 1, 2] = Uint8Array [224, 0, 0, 0] \<and> length [224 :: byte, 0, 0, 0] = 4)
           \<or> (NumberArray [0, 1, 2] = NumberArray [0, 1, 2]
               \<and> MultiKeySignature_createBitmap [0, 1, 2] = Inr [224, 0, 0, 0])"
    by (rule disjI2, rule conjI, rule refl, rule example_bitmap)
  have c: "popcount_bytes [224, 0, 0, 0] \<noteq> length ?sigs" by (simp add: example_popcount)
  from count_mismatch_iff [OF a b] c
  have "MultiKeySignature_new ?sigs (NumberArray [0, 1, 2]) = Inl SignatureCountMismatch"
    by blast
  with a c example_bitmap show ?thesis by blast
qed

section \<open>The codec inverts itself\<close>

lemma unat_byte: "m < 256 \<Longrightarrow> unat (of_nat m :: byte) = m"
  by (simp add: unat_of_nat)

lemma unat_high_byte: "unat (of_nat (n mod 128) + 128 :: byte) = n mod 128 + 128"
proof -
  have "of_nat (n mod 128) + 128 = (of_nat (n mod 128 + 128) :: byte)" by simp
  moreover have "unat (of_nat (n mod 128 + 128) :: byte) = n mod 128 + 128"
    by (rule unat_byte) simp
  ultimately show ?thesis by (simp only:)
qed

lemma uleb128_roundtrip:
  "deserializeUleb128AsU32 (serializeU32AsUleb128 n @ rest) = Inr (n, rest)"
proof (induction n rule: serializeU32AsUleb128.induct)
  case (1 n)
  show ?case
  proof (cases "n < 128")
    case True
    then show ?thesis
      by (subst serializeU32AsUleb128.simps) (simp add: unat_byte)
  next
    case False
    with 1 have ih: "deserializeUleb128AsU32 (serializeU32AsUleb128 (n div 128) @ rest)
                      = Inr (n div 128, rest)" by simp
    from False show ?thesis
      by (subst serializeU32AsUleb128.simps) (simp add: unat_high_byte ih)
  qed
qed

lemma fixedBytes_roundtrip:
  "length bs = len \<Longrightarrow> deserializeFixedBytes len (bs @ rest) = Inr (bs, rest)"
  by (simp add: deserializeFixedBytes_def)

lemma bytes_roundtrip: "deserializeBytes (serializeBytes bs @ rest) = Inr (bs, rest)"
  by (simp add: deserializeBytes_def serializeBytes_def uleb128_roundtrip fixedBytes_roundtrip)

lemma u8_roundtrip:
  assumes "0 \<le> v" "v \<le> 255"
  shows "deserializeU8 (serializeU8 v @ rest) = Inr (v, rest)"
proof -
  have "uint (word_of_int v :: byte) = v"
    using assms by (simp add: uint_word_of_int take_bit_int_eq_self)
  then show ?thesis by (simp add: deserializeU8_def serializeU8_def)
qed

lemma deserializeMany_length:
  "deserializeMany f n inp = Inr (xs, rest) \<Longrightarrow> length xs = n"
  by (induction n arbitrary: inp xs rest) (auto split: sum.splits prod.splits)

lemma deserializeMany_all:
  assumes "\<And>i x r. f i = Inr (x, r) \<Longrightarrow> Q x"
  shows "deserializeMany f n inp = Inr (xs, rest) \<Longrightarrow> list_all Q xs"
  using assms
  by (induction n arbitrary: inp xs rest) (auto split: sum.splits prod.splits)

lemma deserializeMany_roundtrip:
  assumes "\<And>x r. x \<in> set xs \<Longrightarrow> f (ser x @ r) = Inr (x, r)"
  shows "deserializeMany f (length xs) (concat (map ser xs) @ rest) = Inr (xs, rest)"
  using assms by (induction xs) simp_all

lemma deserializeMany_runs_out:
  assumes "\<And>x r. x \<in> set xs \<Longrightarrow> f (ser x @ r) = Inr (x, r)"
    and "f [] = Inl e" and "length xs < n"
  shows "deserializeMany f n (concat (map ser xs)) = Inl e"
  using assms
proof (induction xs arbitrary: n)
  case Nil
  then obtain k where "n = Suc k" by (cases n) auto
  with Nil show ?case by simp
next
  case (Cons x xs)
  then obtain k where n: "n = Suc k" by (cases n) auto
  with Cons.prems have k: "length xs < k" by simp
  have "deserializeMany f k (concat (map ser xs)) = Inl e"
    by (rule Cons.IH) (use Cons.prems k in auto)
  with n Cons.prems(1) [of x "concat (map ser xs)"] show ?case by simp
qed

lemma vector_roundtrip:
  assumes "\<And>x r. x \<in> set xs \<Longrightarrow> f (ser x @ r) = Inr (x, r)"
  shows "deserializeVector f (serializeVector ser xs @ rest) = Inr (xs, rest)"
  using deserializeMany_roundtrip [OF assms, of xs rest]
  by (simp add: deserializeVector_def serializeVector_def uleb128_roundtrip)

section \<open>Serialization and deserialization of the wrappers\<close>

lemma AnyPublicKey_deserialize_valid:
  assumes "AnyPublicKey_deserialize P inp = Inr (k, rest)"
  shows "AnyPublicKey_valid P k"
  using assms
  by (auto simp: AnyPublicKey_deserialize_def AnyPublicKey_valid_def
        Ed25519PublicKey_deserialize_def Secp256k1PublicKey_deserialize_def
        deserializeFixedBytes_def
        split: sum.splits prod.splits if_splits)

lemma AnySignature_deserialize_valid:
  assumes "AnySignature_deserialize P inp = Inr (s, rest)"
  shows "AnySignature_valid P s"
  using assms
  by (auto simp: AnySignature_deserialize_def AnySignature_valid_def AnySignature_new_def
        Ed25519Signature_deserialize_def Secp256k1Signature_deserialize_def
        deserializeFixedBytes_def
        split: sum.splits prod.splits if_splits)

lemma AnySignature_deserialize_empty: "AnySignature_deserialize P [] = Inl TruncatedInput"
  by (simp add: AnySignature_deserialize_def)

lemma AnyPublicKey_fromPublicKey_paired: "AnyPublicKey_paired (AnyPublicKey_fromPublicKey pk)"
  by (cases pk) simp_all

lemma AnySignature_fromSignature_paired: "AnySignature_paired (AnySignature_fromSignature sig)"
  by (cases sig) (simp_all add: AnySignature_new_def)

lemma AnyPublicKey_roundtrip:
  assumes "AnyPublicKey_valid P k"
  shows "AnyPublicKey_deserialize P (AnyPublicKey_serialize k @ rest) = Inr (k, rest)"
proof (cases "publicKey k")
  case (Ed25519PublicKey bs)
  with assms have "AnyPublicKey.variant k = AnyPublicKeyVariant_Ed25519"
    "length bs = Ed25519PublicKey_LENGTH P"
    by (simp_all add: AnyPublicKey_valid_def)
  with Ed25519PublicKey show ?thesis
    by (simp add: AnyPublicKey_deserialize_def AnyPublicKey_serialize_def uleb128_roundtrip
          Ed25519PublicKey_deserialize_def fixedBytes_roundtrip)
next
  case (Secp256k1PublicKey bs)
  with assms have "AnyPublicKey.variant k = AnyPublicKeyVariant_Secp256k1"
    "length bs = Secp256k1PublicKey_LENGTH P"
    by (simp_all add: AnyPublicKey_valid_def)
  with Secp256k1PublicKey show ?thesis
    by (simp add: AnyPublicKey_deserialize_def AnyPublicKey_serialize_def uleb128_roundtrip
          Secp256k1PublicKey_deserialize_def fixedBytes_roundtrip
          AnyPublicKeyVariant_Ed25519_def AnyPublicKeyVariant_Secp256k1_def)
qed

text \<open>The tag that \<open>AnySignature_serialize\<close> writes for a signature.\<close>

lemma AnySignature_serialize_Ed25519:
  "signature s = Ed25519Signature bs \<Longrightarrow>
     AnySignature_serialize T s = serializeU32AsUleb128 (Ed25519 T) @ bs"
  by (simp add: AnySignature_serialize_def)

lemma AnySignature_serialize_Secp256k1:
  "signature s = Secp256k1Signature bs \<Longrightarrow>
     AnySignature_serialize T s = serializeU32AsUleb128 (Secp256k1Ecdsa T) @ bs"
  by (simp add: AnySignature_serialize_def)

lemma AnySignature_roundtrip:
  assumes "AnySignature_valid P s"
    and "Ed25519 T = AnySignatureVariant_Ed25519"
    and "Secp256k1Ecdsa T = AnySignatureVariant_Secp256k1"
  shows "AnySignature_deserialize P (AnySignature_serialize T s @ rest) = Inr (s, rest)"
proof (cases "signature s")
  case (Ed25519Signature bs)
  with assms have "AnySignature.variant s = AnySignatureVariant_Ed25519"
    "length bs = Ed25519Signature_LENGTH P"
    by (simp_all add: AnySignature_valid_def)
  with Ed25519Signature assms(2) show ?thesis
    by (simp add: AnySignature_deserialize_def AnySignature_serialize_Ed25519 uleb128_roundtrip
          Ed25519Signature_deserialize_def fixedBytes_roundtrip AnySignature_new_def)
next
  case (Secp256k1Signature bs)
  with assms have "AnySignature.variant s = AnySignatureVariant_Secp256k1"
    "length bs = Secp256k1Signature_LENGTH P"
    by (simp_all add: AnySignature_valid_def)
  with Secp256k1Signature assms(3) show ?thesis
    by (simp add: AnySignature_deserialize_def AnySignature_serialize_Secp256k1 uleb128_roundtrip
          Secp256k1Signature_deserialize_def fixedBytes_roundtrip AnySignature_new_def
          AnySignatureVariant_Ed25519_def AnySignatureVariant_Secp256k1_def)
qed

lemma AnySignature_unpaired_no_roundtrip:
  assumes "\<not> AnySignature_paired s"
  shows "AnySignature_deserialize P (AnySignature_serialize T s @ rest) \<noteq> Inr (s, rest)"
  using assms AnySignature_deserialize_valid [of P "AnySignature_serialize T s @ rest" s rest]
  by (auto simp: AnySignature_valid_def)

lemma AnySignature_Secp256k1_tag_no_roundtrip:
  assumes "signature s = Secp256k1Signature bs"
    and "Secp256k1Ecdsa T \<noteq> AnySignatureVariant_Secp256k1"
  shows "AnySignature_deserialize P (AnySignature_serialize T s @ rest) \<noteq> Inr (s, rest)"
  using assms
  by (auto simp: AnySignature_deserialize_def AnySignature_serialize_Secp256k1 uleb128_roundtrip
        Ed25519Signature_deserialize_def AnySignature_new_def
        split: sum.splits prod.splits if_splits)

lemma AnySignature_Ed25519_tag_no_roundtrip:
  assumes "signature s = Ed25519Signature bs"
    and "Ed25519 T \<noteq> AnySignatureVariant_Ed25519"
  shows "AnySignature_deserialize P (AnySignature_serialize T s @ rest) \<noteq> Inr (s, rest)"
  using assms
  by (auto simp: AnySignature_deserialize_def AnySignature_serialize_Ed25519 uleb128_roundtrip
        Secp256k1Signature_deserialize_def AnySignature_new_def
        split: sum.splits prod.splits if_splits)

lemma normalize_wrapped_key: "normalizeKey \<circ> WrappedKey = id"
  by (rule ext) simp

lemma MultiKey_roundtrip:
  assumes "MultiKey_valid P k" and "signaturesRequired k \<le> 255"
  shows "MultiKey_deserialize P (MultiKey_serialize k @ rest) = Inr (k, rest)"
proof -
  from assms have v: "1 \<le> signaturesRequired k" "signaturesRequired k \<le> int (length (publicKeys k))"
    "signaturesRequired k \<le> 255" "list_all (AnyPublicKey_valid P) (publicKeys k)"
    by (simp_all add: MultiKey_valid_def)
  have keys: "deserializeVector (AnyPublicKey_deserialize P)
                (serializeVector AnyPublicKey_serialize (publicKeys k) @ r) = Inr (publicKeys k, r)" for r
    by (rule vector_roundtrip) (use v(4) in \<open>simp add: list_all_iff AnyPublicKey_roundtrip\<close>)
  have u8: "deserializeU8 (serializeU8 (signaturesRequired k) @ rest) = Inr (signaturesRequired k, rest)"
    by (rule u8_roundtrip) (use v in linarith)+
  have new: "MultiKey_new (map WrappedKey (publicKeys k)) (signaturesRequired k) = Inr k"
    using v by (simp add: MultiKey_new_def normalize_wrapped_key)
  show ?thesis
    by (simp add: MultiKey_deserialize_def MultiKey_serialize_def keys u8 new)
qed

lemma normalize_wrapped: "normalizeSignature \<circ> WrappedSignature = id"
  by (rule ext) simp

lemma popcount_le: "n < 2 ^ k \<Longrightarrow> popcount n \<le> k"
proof (induction k arbitrary: n)
  case 0
  then show ?case by (simp add: popcount.simps)
next
  case (Suc k)
  then have "n div 2 < 2 ^ k" by simp
  then have "popcount (n div 2) \<le> k" by (rule Suc.IH)
  moreover have "n mod 2 \<le> 1" by simp
  ultimately show ?case by (subst popcount.simps) simp
qed

lemma popcount_byte_le: "popcount (unat (b :: byte)) \<le> 8"
proof -
  have "unat b < 2 ^ 8" using unsigned_less [of b, where ?'a = nat] by simp
  then show ?thesis by (rule popcount_le)
qed

lemma popcount_bytes_le: "popcount_bytes bm \<le> 8 * length bm"
proof (induction bm)
  case Nil
  then show ?case by (simp add: popcount_bytes_def)
next
  case (Cons b bm)
  with popcount_byte_le [of b] show ?case by (simp add: popcount_bytes_def)
qed

lemma MultiKeySignature_deserialize_after_bitmap:
  "MultiKeySignature_deserialize P (serializeBytes bm @ rest) =
     (case deserializeMany (AnySignature_deserialize P) (popcount_bytes bm) rest of
        Inl e \<Rightarrow> Inl e
      | Inr (sigs, rest') \<Rightarrow>
          if popcount_bytes bm > 32 then Inl TooManySignatures
          else if length bm \<noteq> 4 then Inl InvalidBitmapLength
          else Inr (\<lparr>signatures = sigs, bitmap = bm\<rparr>, rest'))"
proof (cases "deserializeMany (AnySignature_deserialize P) (popcount_bytes bm) rest")
  case (Inl e)
  then show ?thesis
    by (simp add: MultiKeySignature_deserialize_def bytes_roundtrip nSignatures_popcount)
next
  case (Inr r)
  obtain sigs rest' where r: "r = (sigs, rest')" by (cases r)
  with Inr have len: "length sigs = popcount_bytes bm" by (auto dest: deserializeMany_length)
  show ?thesis
    using Inr r len
    by (simp add: MultiKeySignature_deserialize_def bytes_roundtrip nSignatures_popcount
          MultiKeySignature_new_raw normalize_wrapped)
qed

section \<open>MultiKeySignature on the wire\<close>

lemma MultiKeySignature_roundtrip:
  assumes "MultiKeySignature_valid P m"
    and "Ed25519 T = AnySignatureVariant_Ed25519"
    and "Secp256k1Ecdsa T = AnySignatureVariant_Secp256k1"
  shows "MultiKeySignature_deserialize P (MultiKeySignature_serialize T m @ rest) = Inr (m, rest)"
proof -
  from assms(1) have v: "length (bitmap m) = 4" "popcount_bytes (bitmap m) = length (signatures m)"
    "list_all (AnySignature_valid P) (signatures m)"
    by (simp_all add: MultiKeySignature_valid_def BITMAP_LEN_def)
  have many: "deserializeMany (AnySignature_deserialize P) (length (signatures m))
                (concat (map (AnySignature_serialize T) (signatures m)) @ rest)
              = Inr (signatures m, rest)"
    by (rule deserializeMany_roundtrip)
       (use v(3) assms(2,3) in \<open>simp add: list_all_iff AnySignature_roundtrip\<close>)
  have le: "popcount_bytes (bitmap m) \<le> 32"
    using popcount_bytes_le [of "bitmap m"] v(1) by simp
  show ?thesis
    using many le v
    by (simp add: MultiKeySignature_serialize_def MultiKeySignature_deserialize_after_bitmap)
qed

lemma MultiKeySignature_deserialize_valid:
  assumes "MultiKeySignature_deserialize P inp = Inr (m, rest)"
  shows "MultiKeySignature_valid P m"
proof -
  from assms obtain bm r1 sigs where
    many: "deserializeMany (AnySignature_deserialize P) (nat (nSignatures bm)) r1 = Inr (sigs, rest)"
    and new: "MultiKeySignature_new (map WrappedSignature sigs) (Uint8Array bm) = Inr m"
    by (auto simp: MultiKeySignature_deserialize_def split: sum.splits prod.splits)
  have "list_all (AnySignature_valid P) sigs"
    by (rule deserializeMany_all [OF _ many]) (rule AnySignature_deserialize_valid)
  moreover from new have "signatures m = sigs" "length (bitmap m) = BITMAP_LEN"
    "popcount_bytes (bitmap m) = length (signatures m)"
    using MultiKeySignature_new_ok [OF new] by (simp_all add: normalize_wrapped)
  ultimately show ?thesis by (simp add: MultiKeySignature_valid_def)
qed

lemma MultiKeySignature_deserialize_runs_out:
  assumes "list_all (AnySignature_valid P) sigs"
    and "Ed25519 T = AnySignatureVariant_Ed25519"
    and "Secp256k1Ecdsa T = AnySignatureVariant_Secp256k1"
    and "length sigs < popcount_bytes bm"
  shows "MultiKeySignature_deserialize P
           (serializeBytes bm @ concat (map (AnySignature_serialize T) sigs)) = Inl TruncatedInput"
proof -
  have "deserializeMany (AnySignature_deserialize P) (popcount_bytes bm)
          (concat (map (AnySignature_serialize T) sigs)) = Inl TruncatedInput"
  proof (rule deserializeMany_runs_out)
    show "AnySignature_deserialize P [] = Inl TruncatedInput"
      by (rule AnySignature_deserialize_empty)
    show "length sigs < popcount_bytes bm" by (rule assms(4))
    show "AnySignature_deserialize P (AnySignature_serialize T x @ r) = Inr (x, r)"
      if "x \<in> set sigs" for x r
      using that assms(1,2,3) by (simp add: list_all_iff AnySignature_roundtrip)
  qed
  then show ?thesis by (simp add: MultiKeySignature_deserialize_after_bitmap)
qed

lemma deserializeMany_single:
  "deserializeMany f (Suc 0) inp = Inr ([x], rest) \<Longrightarrow> f inp = Inr (x, rest)"
  by (auto split: sum.splits prod.splits)

lemma popcount_one_bit: "popcount_bytes [128, 0, 0, 0] = 1"
  by (simp add: popcount_bytes_def popcount.simps)

lemma MultiKeySignature_single_no_roundtrip:
  assumes "AnySignature_deserialize P (AnySignature_serialize T s) \<noteq> Inr (s, [])"
  shows "MultiKeySignature_deserialize P
           (MultiKeySignature_serialize T \<lparr>signatures = [s], bitmap = [128, 0, 0, 0]\<rparr>)
         \<noteq> Inr (\<lparr>signatures = [s], bitmap = [128, 0, 0, 0]\<rparr>, [])"
proof
  assume eq: "MultiKeySignature_deserialize P
           (MultiKeySignature_serialize T \<lparr>signatures = [s], bitmap = [128, 0, 0, 0]\<rparr>)
         = Inr (\<lparr>signatures = [s], bitmap = [128, 0, 0, 0]\<rparr>, [])"
  have "MultiKeySignature_serialize T \<lparr>signatures = [s], bitmap = [128, 0, 0, 0]\<rparr>
          = serializeBytes [128, 0, 0, 0] @ AnySignature_serialize T s"
    by (simp add: MultiKeySignature_serialize_def)
  with eq have "deserializeMany (AnySignature_deserialize P) (Suc 0) (AnySignature_serialize T s)
                  = Inr ([s], [])"
    by (simp add: MultiKeySignature_deserialize_after_bitmap popcount_one_bit
          split: sum.splits prod.splits)
  then have "AnySignature_deserialize P (AnySignature_serialize T s) = Inr (s, [])"
    by (rule deserializeMany_single)
  with assms show False by contradiction
qed

lemma single_bit_bitmap: "MultiKeySignature_createBitmap [0] = Inr [128, 0, 0, 0]"
  by (simp add: MultiKeySignature_createBitmap_def setBit_def MAX_SIGNATURES_SUPPORTED_def
        BITMAP_LEN_def)

lemma uleb128_small: "n < 128 \<Longrightarrow> serializeU32AsUleb128 n = [of_nat n]"
  by (subst serializeU32AsUleb128.simps) simp

section \<open>The claims about the wrappers and the wire format\<close>

text \<open>
  C1: the round trip fails for AnySignature.  A value built by the public constructor
  with a variant that is not the one of the wrapped signature is serialized with the tag
  of the class of the wrapped signature, and the deserializer only returns values whose
  variant is the one of the class, so it cannot return that value.  And a value built by
  \<^verbatim>\<open>fromSignature\<close> from a Secp256k1 signature is written with the tag
  \<^verbatim>\<open>SigningSchemeInput.Secp256k1Ecdsa\<close>, which the deserializer maps back to a Secp256k1
  signature only if that number is \<^verbatim>\<open>AnySignatureVariant.Secp256k1\<close>.
\<close>

theorem AnySignature_roundtrip_fails:
  "AnySignature_deserialize P
      (AnySignature_serialize T (AnySignature_new (Ed25519Signature bs) AnySignatureVariant_Secp256k1))
     \<noteq> Inr (AnySignature_new (Ed25519Signature bs) AnySignatureVariant_Secp256k1, [])
   \<and> (Secp256k1Ecdsa T \<noteq> AnySignatureVariant_Secp256k1 \<longrightarrow>
        AnySignature_deserialize P
          (AnySignature_serialize T (AnySignature_fromSignature (Secp256k1Signature bs)))
        \<noteq> Inr (AnySignature_fromSignature (Secp256k1Signature bs), []))"
proof (intro conjI impI)
  let ?s = "AnySignature_new (Ed25519Signature bs) AnySignatureVariant_Secp256k1"
  have "\<not> AnySignature_paired ?s"
    by (simp add: AnySignature_new_def AnySignatureVariant_Ed25519_def
          AnySignatureVariant_Secp256k1_def)
  from AnySignature_unpaired_no_roundtrip [OF this, of P T "[]"]
  show "AnySignature_deserialize P (AnySignature_serialize T ?s) \<noteq> Inr (?s, [])" by simp
next
  let ?s = "AnySignature_fromSignature (Secp256k1Signature bs)"
  assume t: "Secp256k1Ecdsa T \<noteq> AnySignatureVariant_Secp256k1"
  have "signature ?s = Secp256k1Signature bs" by (simp add: AnySignature_new_def)
  from AnySignature_Secp256k1_tag_no_roundtrip [OF this t, of P "[]"]
  show "AnySignature_deserialize P (AnySignature_serialize T ?s) \<noteq> Inr (?s, [])" by simp
qed

lemma example_tag: "Secp256k1Ecdsa exampleSigningSchemeInput \<noteq> AnySignatureVariant_Secp256k1"
  by (simp add: exampleSigningSchemeInput_def AnySignatureVariant_Secp256k1_def)

lemma example_unknown_variant:
  "AnySignature_deserialize examplePrimitives
     (AnySignature_serialize exampleSigningSchemeInput
        (AnySignature_fromSignature (Secp256k1Signature bs))) = Inl (UnknownVariant 2)"
  by (simp add: AnySignature_serialize_def AnySignature_new_def exampleSigningSchemeInput_def
        uleb128_small AnySignature_deserialize_def AnySignatureVariant_Ed25519_def
        AnySignatureVariant_Secp256k1_def)

theorem AnySignature_roundtrip_fails_witness:
  "Secp256k1Ecdsa exampleSigningSchemeInput \<noteq> AnySignatureVariant_Secp256k1
   \<and> AnySignature_deserialize examplePrimitives
        (AnySignature_serialize exampleSigningSchemeInput
           (AnySignature_fromSignature (Secp256k1Signature (replicate 64 0))))
      \<noteq> Inr (AnySignature_fromSignature (Secp256k1Signature (replicate 64 0)), [])
   \<and> AnySignature_deserialize examplePrimitives
        (AnySignature_serialize exampleSigningSchemeInput
           (AnySignature_fromSignature (Secp256k1Signature (replicate 64 0))))
      = Inl (UnknownVariant 2)"
  using AnySignature_roundtrip_fails [of examplePrimitives exampleSigningSchemeInput "replicate 64 0"]
    example_tag example_unknown_variant [of "replicate 64 0"]
  by blast

text \<open>
  C3: the tag that \<^verbatim>\<open>AnySignature.serialize\<close> writes is a member of
  \<^verbatim>\<open>SigningSchemeInput\<close> chosen by the class of the wrapped signature; the bytes written
  are the same for every stored variant \<open>v\<close>, so the tag is not the stored variant whenever
  \<open>v\<close> is another number.
\<close>

theorem AnySignature_serialize_tag_from_class:
  "deserializeUleb128AsU32 (AnySignature_serialize T (AnySignature_new (Ed25519Signature bs) v))
     = Inr (Ed25519 T, bs)
   \<and> deserializeUleb128AsU32 (AnySignature_serialize T (AnySignature_new (Secp256k1Signature bs) v))
     = Inr (Secp256k1Ecdsa T, bs)
   \<and> AnySignature_serialize T (AnySignature_new sig v)
       = AnySignature_serialize T (AnySignature_new sig v')
   \<and> AnySignature.variant (AnySignature_new sig v) = v"
  by (simp add: AnySignature_serialize_def AnySignature_new_def uleb128_roundtrip)

text \<open>
  C5: the public constructor of AnySignature stores any variant next to any signature.
  The values built by \<^verbatim>\<open>fromPublicKey\<close> and \<^verbatim>\<open>fromSignature\<close> are paired.
\<close>

theorem AnySignature_new_unpaired:
  "\<not> AnySignature_paired (AnySignature_new (Ed25519Signature bs) AnySignatureVariant_Secp256k1)
   \<and> \<not> AnySignature_paired (AnySignature_new (Secp256k1Signature bs) AnySignatureVariant_Ed25519)
   \<and> AnySignature_paired (AnySignature_fromSignature sig)
   \<and> AnyPublicKey_paired (AnyPublicKey_fromPublicKey pk)"
  using AnySignature_fromSignature_paired [of sig] AnyPublicKey_fromPublicKey_paired [of pk]
  by (simp add: AnySignature_new_def AnySignatureVariant_Ed25519_def
        AnySignatureVariant_Secp256k1_def)

lemma verifySignature_by_scheme:
  "(AnyPublicKey_verifySignature V k message s = Inr True \<longrightarrow>
      sameScheme (publicKey k) (signature s)
      \<and> ((\<exists>kb sb. publicKey k = Ed25519PublicKey kb \<and> signature s = Ed25519Signature sb
                   \<and> Ed25519_verify V kb message sb = Inr True)
         \<or> (\<exists>kb sb. publicKey k = Secp256k1PublicKey kb \<and> signature s = Secp256k1Signature sb
                   \<and> Secp256k1_verify V kb message sb = Inr True)))
   \<and> (\<not> sameScheme (publicKey k) (signature s) \<longrightarrow>
        AnyPublicKey_verifySignature V k message s = Inr False)
   \<and> (AnyPublicKey_paired k \<and> AnySignature_paired s \<longrightarrow>
        (sameScheme (publicKey k) (signature s)
           \<longleftrightarrow> AnyPublicKey.variant k = AnySignature.variant s))"
  by (cases "publicKey k"; cases "signature s")
     (simp_all add: AnyPublicKey_verifySignature_def AnyPublicKeyVariant_Ed25519_def
        AnyPublicKeyVariant_Secp256k1_def AnySignatureVariant_Ed25519_def
        AnySignatureVariant_Secp256k1_def)

text \<open>
  For a key and a signature that satisfy the pairing invariant, \<^verbatim>\<open>verifySignature\<close>
  does what is asked of it: true only for equal variants and a primitive verification
  that succeeds, false and no error for different variants.
\<close>

lemma verifySignature_paired:
  assumes "AnyPublicKey_paired k" and "AnySignature_paired s"
  shows "AnyPublicKey_verifySignature V k message s = Inr True \<Longrightarrow>
           AnyPublicKey.variant k = AnySignature.variant s
           \<and> ((\<exists>kb sb. publicKey k = Ed25519PublicKey kb \<and> signature s = Ed25519Signature sb
                        \<and> Ed25519_verify V kb message sb = Inr True)
              \<or> (\<exists>kb sb. publicKey k = Secp256k1PublicKey kb \<and> signature s = Secp256k1Signature sb
                        \<and> Secp256k1_verify V kb message sb = Inr True))"
    and "AnyPublicKey.variant k \<noteq> AnySignature.variant s \<Longrightarrow>
           AnyPublicKey_verifySignature V k message s = Inr False"
  using assms verifySignature_by_scheme [of V k message s] by blast+

text \<open>
  C4: \<^verbatim>\<open>verifySignature\<close> tests the classes of the wrapped key and of the wrapped
  signature and reads neither variant.  For an Ed25519 key (variant 0) and an
  AnySignature that the public constructor built from an Ed25519 signature under the
  variant 1, the two variants differ, and the result is not false: it is whatever the
  primitive Ed25519 verification answers for the key, the message and the signature, so
  it is true for a genuine signature.
\<close>

theorem verifySignature_ignores_variant:
  "AnyPublicKey_verifySignature V (AnyPublicKey_fromPublicKey (Ed25519PublicKey kb)) message
      (AnySignature_new (Ed25519Signature sb) AnySignatureVariant_Secp256k1)
     = Ed25519_verify V kb message sb
   \<and> AnyPublicKey.variant (AnyPublicKey_fromPublicKey (Ed25519PublicKey kb))
     \<noteq> AnySignature.variant (AnySignature_new (Ed25519Signature sb) AnySignatureVariant_Secp256k1)
   \<and> AnyPublicKey_verifySignature V (AnyPublicKey_fromPublicKey (Ed25519PublicKey kb)) message
       (AnySignature_new (Ed25519Signature sb) AnySignatureVariant_Secp256k1)
     = AnyPublicKey_verifySignature V (AnyPublicKey_fromPublicKey (Ed25519PublicKey kb)) message
         (AnySignature_fromSignature (Ed25519Signature sb))"
  by (simp add: AnyPublicKey_verifySignature_def AnySignature_new_def
        AnyPublicKeyVariant_Ed25519_def AnySignatureVariant_Secp256k1_def)

text \<open>
  C7: the encoding is the length-prefixed bitmap followed by the signatures, and the
  decoder reads as many signatures as the bitmap has bits set, but the decoder does not
  invert the encoder: it inherits the failure of the AnySignature round trip.  The
  MultiKeySignature with the single signature of C1 is accepted by the constructor and
  is not what deserializing its serialization returns.
\<close>

theorem MultiKeySignature_roundtrip_fails:
  "MultiKeySignature_new
      [WrappedSignature (AnySignature_new (Ed25519Signature bs) AnySignatureVariant_Secp256k1)]
      (NumberArray [0])
     = Inr \<lparr>signatures = [AnySignature_new (Ed25519Signature bs) AnySignatureVariant_Secp256k1],
            bitmap = [128, 0, 0, 0]\<rparr>
   \<and> MultiKeySignature_deserialize P
       (MultiKeySignature_serialize T
          \<lparr>signatures = [AnySignature_new (Ed25519Signature bs) AnySignatureVariant_Secp256k1],
           bitmap = [128, 0, 0, 0]\<rparr>)
     \<noteq> Inr (\<lparr>signatures = [AnySignature_new (Ed25519Signature bs) AnySignatureVariant_Secp256k1],
             bitmap = [128, 0, 0, 0]\<rparr>, [])
   \<and> (Secp256k1Ecdsa T \<noteq> AnySignatureVariant_Secp256k1 \<longrightarrow>
        MultiKeySignature_deserialize P
          (MultiKeySignature_serialize T
             \<lparr>signatures = [AnySignature_fromSignature (Secp256k1Signature bs)],
              bitmap = [128, 0, 0, 0]\<rparr>)
        \<noteq> Inr (\<lparr>signatures = [AnySignature_fromSignature (Secp256k1Signature bs)],
                bitmap = [128, 0, 0, 0]\<rparr>, []))"
proof (intro conjI impI)
  let ?s = "AnySignature_new (Ed25519Signature bs) AnySignatureVariant_Secp256k1"
  show "MultiKeySignature_new [WrappedSignature ?s] (NumberArray [0])
          = Inr \<lparr>signatures = [?s], bitmap = [128, 0, 0, 0]\<rparr>"
    by (simp add: MultiKeySignature_new_bits single_bit_bitmap popcount_one_bit)
  have "\<not> AnySignature_paired ?s"
    by (simp add: AnySignature_new_def AnySignatureVariant_Ed25519_def
          AnySignatureVariant_Secp256k1_def)
  from AnySignature_unpaired_no_roundtrip [OF this, of P T "[]"]
  have "AnySignature_deserialize P (AnySignature_serialize T ?s) \<noteq> Inr (?s, [])" by simp
  then show "MultiKeySignature_deserialize P
       (MultiKeySignature_serialize T \<lparr>signatures = [?s], bitmap = [128, 0, 0, 0]\<rparr>)
     \<noteq> Inr (\<lparr>signatures = [?s], bitmap = [128, 0, 0, 0]\<rparr>, [])"
    by (rule MultiKeySignature_single_no_roundtrip)
next
  let ?s = "AnySignature_fromSignature (Secp256k1Signature bs)"
  assume t: "Secp256k1Ecdsa T \<noteq> AnySignatureVariant_Secp256k1"
  have "signature ?s = Secp256k1Signature bs" by (simp add: AnySignature_new_def)
  from AnySignature_Secp256k1_tag_no_roundtrip [OF this t, of P "[]"]
  have "AnySignature_deserialize P (AnySignature_serialize T ?s) \<noteq> Inr (?s, [])" by simp
  then show "MultiKeySignature_deserialize P
       (MultiKeySignature_serialize T \<lparr>signatures = [?s], bitmap = [128, 0, 0, 0]\<rparr>)
     \<noteq> Inr (\<lparr>signatures = [?s], bitmap = [128, 0, 0, 0]\<rparr>, [])"
    by (rule MultiKeySignature_single_no_roundtrip)
qed

theorem MultiKeySignature_roundtrip_fails_witness:
  "Secp256k1Ecdsa exampleSigningSchemeInput \<noteq> AnySignatureVariant_Secp256k1
   \<and> MultiKeySignature_deserialize examplePrimitives
        (MultiKeySignature_serialize exampleSigningSchemeInput
           \<lparr>signatures = [AnySignature_fromSignature (Secp256k1Signature (replicate 64 0))],
            bitmap = [128, 0, 0, 0]\<rparr>)
      \<noteq> Inr (\<lparr>signatures = [AnySignature_fromSignature (Secp256k1Signature (replicate 64 0))],
              bitmap = [128, 0, 0, 0]\<rparr>, [])"
  using MultiKeySignature_roundtrip_fails [of "replicate 64 0" examplePrimitives
      exampleSigningSchemeInput] example_tag
  by blast

lemma scenario_popcount: "popcount_bytes [160, 0, 0, 0] = 2"
  by (simp add: popcount_bytes_def popcount.simps)

lemma deserialize_example_Ed25519:
  "length bs = 64 \<Longrightarrow>
     AnySignature_deserialize examplePrimitives (0 # bs @ rest)
       = Inr (AnySignature_new (Ed25519Signature bs) AnySignatureVariant_Ed25519, rest)"
  by (simp add: AnySignature_deserialize_def AnySignatureVariant_Ed25519_def
        Ed25519Signature_deserialize_def examplePrimitives_def deserializeFixedBytes_def)

lemma deserialize_example_Secp256k1:
  "length bs = 64 \<Longrightarrow>
     AnySignature_deserialize examplePrimitives (1 # bs @ rest)
       = Inr (AnySignature_new (Secp256k1Signature bs) AnySignatureVariant_Secp256k1, rest)"
  by (simp add: AnySignature_deserialize_def AnySignatureVariant_Ed25519_def
        AnySignatureVariant_Secp256k1_def
        Secp256k1Signature_deserialize_def examplePrimitives_def deserializeFixedBytes_def)

text \<open>
  C8: with the MultiKey of three keys and threshold 2, the positions 0 and 2 give the
  bitmap \<open>0b10100000 00000000 00000000 00000000\<close>; a position \<open>i\<close> below 32 sets, in byte
  \<open>i div 8\<close>, the bit \<open>i mod 8\<close> counted from the most significant one; and
  deserializing a MultiKeySignature whose bitmap is that value reads two signatures
  from the rest of the input (shown on an input that holds two), no more and no fewer.
\<close>

theorem bitmap_scenario:
  "MultiKey_createBitmap \<lparr>publicKeys = [k1, k2, k3], signaturesRequired = 2\<rparr> [0, 2]
     = Inr [160, 0, 0, 0]
   \<and> setBit [0, 0, 0, 0] i =
       (if i div 8 < 4 then [0, 0, 0, 0][i div 8 := push_bit (7 - i mod 8) 1] else [0, 0, 0, 0])
   \<and> popcount_bytes [160, 0, 0, 0] = 2
   \<and> MultiKeySignature_deserialize P (serializeBytes [160, 0, 0, 0] @ rest) =
       (case deserializeMany (AnySignature_deserialize P) 2 rest of
          Inl e \<Rightarrow> Inl e
        | Inr (sigs, rest') \<Rightarrow> Inr (\<lparr>signatures = sigs, bitmap = [160, 0, 0, 0]\<rparr>, rest'))
   \<and> MultiKeySignature_deserialize examplePrimitives
         (serializeBytes [160, 0, 0, 0] @ (0 # replicate 64 7) @ (1 # replicate 64 9) @ [5])
       = Inr (\<lparr>signatures =
                  [AnySignature_new (Ed25519Signature (replicate 64 7)) AnySignatureVariant_Ed25519,
                   AnySignature_new (Secp256k1Signature (replicate 64 9)) AnySignatureVariant_Secp256k1],
                bitmap = [160, 0, 0, 0]\<rparr>, [5])"
proof (intro conjI)
  show "MultiKey_createBitmap \<lparr>publicKeys = [k1, k2, k3], signaturesRequired = 2\<rparr> [0, 2]
          = Inr [160, 0, 0, 0]"
    by (simp add: MultiKey_createBitmap_def setBit_def)
  show "setBit [0, 0, 0, 0] i =
       (if i div 8 < 4 then [0, 0, 0, 0][i div 8 := push_bit (7 - i mod 8) 1] else [0, 0, 0, 0])"
  proof (cases "i div 8 < 4")
    case True
    then have "setBit [0, 0, 0, 0] i
                 = [0, 0, 0, 0][i div 8 := [0, 0, 0, 0] ! (i div 8) OR push_bit (7 - i mod 8) 1]"
      by (intro setBit_in_range) simp
    moreover have "[0 :: byte, 0, 0, 0] ! (i div 8) = 0"
      using True by (simp add: nth_Cons' )
    ultimately show ?thesis using True by simp
  next
    case False
    then show ?thesis by (simp add: setBit_out_of_range)
  qed
  show "popcount_bytes [160, 0, 0, 0] = 2" by (rule scenario_popcount)
  show "MultiKeySignature_deserialize P (serializeBytes [160, 0, 0, 0] @ rest) =
       (case deserializeMany (AnySignature_deserialize P) 2 rest of
          Inl e \<Rightarrow> Inl e
        | Inr (sigs, rest') \<Rightarrow> Inr (\<lparr>signatures = sigs, bitmap = [160, 0, 0, 0]\<rparr>, rest'))"
    by (simp add: MultiKeySignature_deserialize_after_bitmap scenario_popcount
          split: sum.splits prod.splits)
  have two: "deserializeMany (AnySignature_deserialize examplePrimitives) (Suc (Suc 0))
               ((0 # replicate 64 7) @ (1 # replicate 64 9) @ [5])
             = Inr ([AnySignature_new (Ed25519Signature (replicate 64 7)) AnySignatureVariant_Ed25519,
                     AnySignature_new (Secp256k1Signature (replicate 64 9)) AnySignatureVariant_Secp256k1],
                    [5])"
    using deserialize_example_Ed25519 [of "replicate 64 7" "(1 # replicate 64 9) @ [5]"]
      deserialize_example_Secp256k1 [of "replicate 64 9" "[5]"]
    by simp
  show "MultiKeySignature_deserialize examplePrimitives
         (serializeBytes [160, 0, 0, 0] @ (0 # replicate 64 7) @ (1 # replicate 64 9) @ [5])
       = Inr (\<lparr>signatures =
                  [AnySignature_new (Ed25519Signature (replicate 64 7)) AnySignatureVariant_Ed25519,
                   AnySignature_new (Secp256k1Signature (replicate 64 9)) AnySignatureVariant_Secp256k1],
                bitmap = [160, 0, 0, 0]\<rparr>, [5])"
    using two
    by (simp only: MultiKeySignature_deserialize_after_bitmap scenario_popcount
          numeral_2_eq_2) simp
qed

end
